theory Spec2Isabelle
  imports Main "HOL-Library.Char_ord" "HOL-Library.List_Lexorder" "HOL-Library.AList"
    "HOL-Library.Code_Target_Nat"
begin

section \<open>The Engine API client of main.go\<close>

text \<open>
  The program is one Go file: a client struct, a JWT generator, a JSON-RPC request
  function and two public operations built on it. Everything it does beyond building
  values goes through a library (time, encoding/json, golang-jwt, net/http). The
  libraries are not part of the repository: the model takes them as the fields of an
  environment record, so that every general theorem holds whatever the libraries do,
  and a reference environment further down gives them concrete behaviour for
  evaluation at concrete inputs.
\<close>

subsection \<open>Go values\<close>

type_synonym bytes = string

record ForkChoiceState =
  HeadBlockHash :: string
  SafeBlockHash :: string
  FinalizedBlockHash :: string

record PayloadAttributes =
  Timestamp :: string
  PrevRandao :: string
  SuggestedFeeRecipient :: string

text \<open>
  A value held in an \<^verbatim>\<open>interface{}\<close>. A Go map is the list of its entries (keys
  distinct), \<open>None\<close> being the nil map. A \<^verbatim>\<open>float64\<close> is carried as its decimal
  literal. \<open>VAttrs\<close> is a non-nil \<^verbatim>\<open>*PayloadAttributes\<close>; \<open>VChan\<close> stands for the
  values encoding/json cannot represent (channels, functions).
\<close>

datatype any =
    VNil
  | VBool bool
  | VInt int
  | VFloat64 string
  | VString string
  | VSlice "any list"
  | VMap "((string \<times> any) list) option"
  | VState ForkChoiceState
  | VAttrs PayloadAttributes
  | VChan

type_synonym gomap = "((string \<times> any) list) option"

subsection \<open>Errors\<close>

text \<open>
  Go error values. \<open>ErrorString\<close> is what \<^verbatim>\<open>fmt.Errorf\<close> returns for a format
  without \<^verbatim>\<open>%w\<close>: the text alone, nothing to unwrap. \<open>UrlError\<close> is \<^verbatim>\<open>*url.Error\<close>,
  which net/http wraps around the cause of a failed exchange. The others are the
  libraries' own errors.
\<close>

datatype error =
    Canceled
  | DeadlineExceeded
  | EOF
  | ErrUnexpectedEOF
  | SyntaxError string
  | UnmarshalTypeError string string
  | UnsupportedTypeError string
  | ErrHashUnavailable
  | LibraryError string
  | UrlError string string error
  | ErrorString string

fun Error :: "error \<Rightarrow> string" where
  \<open>Error Canceled = ''context canceled''\<close>
| \<open>Error DeadlineExceeded = ''context deadline exceeded''\<close>
| \<open>Error EOF = ''EOF''\<close>
| \<open>Error ErrUnexpectedEOF = ''unexpected EOF''\<close>
| \<open>Error (SyntaxError msg) = msg\<close>
| \<open>Error (UnmarshalTypeError v t) =
     ''json: cannot unmarshal '' @ v @ '' into Go value of type '' @ t\<close>
| \<open>Error (UnsupportedTypeError t) = ''json: unsupported type: '' @ t\<close>
| \<open>Error ErrHashUnavailable = ''the requested hash function is unavailable''\<close>
| \<open>Error (LibraryError msg) = msg\<close>
| \<open>Error (UrlError op url err) = op @ '' "'' @ url @ ''": '' @ Error err\<close>
| \<open>Error (ErrorString msg) = msg\<close>

fun Unwrap :: "error \<Rightarrow> error option" where
  "Unwrap (UrlError op url err) = Some err"
| "Unwrap _ = None"


text \<open>\<^verbatim>\<open>fmt.Errorf(prefix + "%v", err)\<close>: the cause survives as text only.\<close>

definition Errorf :: "string \<Rightarrow> error \<Rightarrow> error" where
  "Errorf prefix err = ErrorString (prefix @ Error err)"

text \<open>\<^verbatim>\<open>%d\<close> of an int.\<close>

fun digits :: "nat \<Rightarrow> string" where
  "digits n =
     (if n < 10 then [''0123456789'' ! n]
      else digits (n div 10) @ [''0123456789'' ! (n mod 10)])"

definition itoa :: "int \<Rightarrow> string" where
  "itoa i = (if i < 0 then CHR ''-'' # digits (nat (- i)) else digits (nat i))"

subsection \<open>Time\<close>

text \<open>
  A \<^verbatim>\<open>time.Time\<close> is its wall-clock instant in nanoseconds since the Unix epoch, a
  \<^verbatim>\<open>time.Duration\<close> a number of nanoseconds. \<^verbatim>\<open>Unix()\<close> is the whole seconds elapsed
  (rounded down). The instants a program meets are far from the ends of the 64-bit
  range, so the integers are unbounded.
\<close>

type_synonym Time = int
type_synonym Duration = int

definition Second :: Duration where
  "Second = 1000000000"

definition Minute :: Duration where
  "Minute = 60 * Second"

definition Add :: "Time \<Rightarrow> Duration \<Rightarrow> Time" where
  "Add t d = t + d"

definition Unix :: "Time \<Rightarrow> int" where
  "Unix t = t div 1000000000"

subsection \<open>HTTP and JWT data\<close>

text \<open>
  A \<^verbatim>\<open>context.Context\<close> as the caller hands it over: nil, or a context with what its
  \<^verbatim>\<open>Err()\<close> yields when the transport looks at it (\<open>None\<close> while it is live).
\<close>

datatype context_Context = nil_Context | Context "error option"

record http_Client =
  Timeout :: Duration

record http_Request =
  Method :: string
  URL :: string
  Header :: "(string \<times> string) list"
  RequestBody :: bytes
  Ctx :: context_Context

record http_Response =
  StatusCode :: int
  Body :: bytes

definition StatusOK :: int where
  "StatusOK = 200"

text \<open>\<^verbatim>\<open>Header.Set\<close>: the value replaces what the key had.\<close>

definition Header_Set :: "string \<Rightarrow> string \<Rightarrow> http_Request \<Rightarrow> http_Request" where
  "Header_Set k v req = req\<lparr>Header := AList.update k v (Header req)\<rparr>"

record Token =
  TokenHeader :: "(string \<times> string) list"
  Claims :: "(string \<times> int) list"
  SigningMethod :: string

definition SigningMethodHS256 :: string where
  "SigningMethodHS256 = ''HS256''"

definition NewWithClaims :: "string \<Rightarrow> (string \<times> int) list \<Rightarrow> Token" where
  "NewWithClaims method claims =
     \<lparr>TokenHeader = [(''typ'', ''JWT''), (''alg'', method)],
      Claims = claims,
      SigningMethod = method\<rparr>"

subsection \<open>The client, the environment and the state\<close>

record EngineClient =
  endpoint :: string
  jwtSecret :: bytes
  client :: http_Client

text \<open>
  The environment: the wall clock as the sequence of its readings, and the library
  calls of the program. A library call returns its error or its result.
\<close>

record env =
  wall :: "nat \<Rightarrow> Time"
  json_Marshal :: "any \<Rightarrow> error + bytes"
  SignedString :: "Token \<Rightarrow> bytes \<Rightarrow> error + string"
  url_Parse :: "string \<Rightarrow> error option"
  client_Do :: "http_Client \<Rightarrow> http_Request \<Rightarrow> error + http_Response"
  json_Decode :: "bytes \<Rightarrow> error + gomap"

text \<open>
  The state the methods run in: the object behind the receiver pointer \<^verbatim>\<open>c\<close>, the
  number of clock readings taken so far, and the requests handed to the transport
  (latest first).
\<close>

record state =
  self :: EngineClient
  reads :: nat
  sent :: "http_Request list"

definition NewEngineClient :: "string \<Rightarrow> bytes \<Rightarrow> EngineClient" where
  "NewEngineClient endpoint' jwtSecret' =
     \<lparr>endpoint = endpoint', jwtSecret = jwtSecret', client = \<lparr>Timeout = 10 * Second\<rparr>\<rparr>"

definition time_Now :: "env \<Rightarrow> state \<Rightarrow> Time \<times> state" where
  "time_Now env s = (wall env (reads s), s\<lparr>reads := reads s + 1\<rparr>)"

text \<open>
  \<^verbatim>\<open>http.NewRequestWithContext\<close>: the method is checked first (\<^verbatim>\<open>"POST"\<close> passes),
  then the context, then the URL.
\<close>

definition NewRequestWithContext ::
  "env \<Rightarrow> context_Context \<Rightarrow> string \<Rightarrow> string \<Rightarrow> bytes \<Rightarrow> error + http_Request" where
  "NewRequestWithContext env ctx method url body =
     (if ctx = nil_Context then Inl (LibraryError ''net/http: nil Context'')
      else case url_Parse env url of
          Some err \<Rightarrow> Inl err
        | None \<Rightarrow>
            Inr \<lparr>Method = method, URL = url, Header = [], RequestBody = body, Ctx = ctx\<rparr>)"

subsection \<open>generateJWT\<close>

text \<open>
  Lines 42 to 46: the claims and the token. The clock is read twice, once for each
  claim, in the order of the map literal.
\<close>

definition generateJWT_token :: "env \<Rightarrow> state \<Rightarrow> Token \<times> state" where
  "generateJWT_token env s =
     (let (t1, s1) = time_Now env s;
          (t2, s2) = time_Now env s1;
          claims = [(''iat'', Unix t1), (''exp'', Unix (Add t2 Minute))]
      in (NewWithClaims SigningMethodHS256 claims, s2))"

definition generateJWT :: "env \<Rightarrow> state \<Rightarrow> (error + string) \<times> state" where
  "generateJWT env s =
     (let (token, s') = generateJWT_token env s
      in (SignedString env token (jwtSecret (self s')), s'))"

subsection \<open>makeRequest and the two operations\<close>

text \<open>
  A method returns the pair Go returns, the result map (\<open>None\<close> is nil) and the error
  (\<open>None\<close> is nil), and the state it leaves.
\<close>

definition makeRequest ::
  "env \<Rightarrow> context_Context \<Rightarrow> string \<Rightarrow> any \<Rightarrow> state \<Rightarrow> (gomap \<times> error option) \<times> state" where
  "makeRequest env ctx method params s =
     (let request = VMap (Some [(''jsonrpc'', VString ''2.0''),
                                (''method'', VString method),
                                (''params'', params),
                                (''id'', VInt 1)])
      in case json_Marshal env request of
          Inl err \<Rightarrow> ((None, Some (Errorf ''failed to marshal request: '' err)), s)
        | Inr requestBody \<Rightarrow>
      (case generateJWT env s of
          (Inl err, s1) \<Rightarrow> ((None, Some err), s1)
        | (Inr token, s1) \<Rightarrow>
      (case NewRequestWithContext env ctx ''POST'' (endpoint (self s1)) requestBody of
          Inl err \<Rightarrow> ((None, Some (Errorf ''failed to create request: '' err)), s1)
        | Inr req0 \<Rightarrow>
      (let req = Header_Set ''Authorization'' (''Bearer '' @ token)
                   (Header_Set ''Content-Type'' ''application/json'' req0);
           s2 = s1\<lparr>sent := req # sent s1\<rparr>
       in case client_Do env (client (self s2)) req of
          Inl err \<Rightarrow> ((None, Some (Errorf ''failed to make request: '' err)), s2)
        | Inr resp \<Rightarrow>
            if StatusCode resp \<noteq> StatusOK
            then ((None, Some (ErrorString (''unexpected HTTP status: '' @ itoa (StatusCode resp)))), s2)
            else (case json_Decode env (Body resp) of
                Inl err \<Rightarrow> ((None, Some (Errorf ''failed to decode response: '' err)), s2)
              | Inr result \<Rightarrow> ((result, None), s2))))))"

definition ForkchoiceUpdated ::
  "env \<Rightarrow> context_Context \<Rightarrow> ForkChoiceState \<Rightarrow> PayloadAttributes option \<Rightarrow> state
     \<Rightarrow> (gomap \<times> error option) \<times> state" where
  "ForkchoiceUpdated env ctx st attributes s =
     (let params = [VState st];
          params = (case attributes of None \<Rightarrow> params | Some a \<Rightarrow> params @ [VAttrs a])
      in makeRequest env ctx ''engine_forkchoiceUpdatedV1'' (VSlice params) s)"

definition NewPayload ::
  "env \<Rightarrow> context_Context \<Rightarrow> gomap \<Rightarrow> state \<Rightarrow> (gomap \<times> error option) \<times> state" where
  "NewPayload env ctx payload s =
     makeRequest env ctx ''engine_newPayloadV1'' (VSlice [VMap payload]) s"

section \<open>Reference behaviour of the libraries\<close>

text \<open>
  Concrete library behaviour, for evaluating the program at concrete inputs. The
  general theorems do not depend on it.
\<close>

subsection \<open>json.Marshal\<close>

text \<open>
  The encoder on the values of \<open>any\<close>: compact output, map keys sorted, struct fields
  in declaration order under their tags, HTML-sensitive and control characters of a
  string escaped. Bytes beyond ASCII are copied as they are (Go validates them as
  UTF-8 and escapes U+2028 and U+2029).
\<close>

definition hexdigit :: "nat \<Rightarrow> char" where
  "hexdigit n = ''0123456789abcdef'' ! (n mod 16)"

definition escape_char :: "char \<Rightarrow> string" where
  \<open>escape_char c =
     (if c = CHR ''"'' then [CHR 0x5C, CHR ''"'']
      else if c = CHR 0x5C then [CHR 0x5C, CHR 0x5C]
      else if c = CHR 0x08 then [CHR 0x5C, CHR ''b'']
      else if c = CHR 0x0C then [CHR 0x5C, CHR ''f'']
      else if c = CHR 0x0A then [CHR 0x5C, CHR ''n'']
      else if c = CHR 0x0D then [CHR 0x5C, CHR ''r'']
      else if c = CHR 0x09 then [CHR 0x5C, CHR ''t'']
      else if (of_char c :: nat) < 32 \<or> c = CHR ''<'' \<or> c = CHR ''>'' \<or> c = CHR ''&''
      then [CHR 0x5C, CHR ''u'', CHR ''0'', CHR ''0'',
            hexdigit (of_char c div 16), hexdigit (of_char c)]
      else [c])\<close>

definition quote :: "string \<Rightarrow> string" where
  \<open>quote s = CHR ''"'' # concat (map escape_char s) @ [CHR ''"'']\<close>

fun join :: "string \<Rightarrow> string list \<Rightarrow> string" where
  "join sep [] = []"
| "join sep [x] = x"
| "join sep (x # y # ys) = x @ sep @ join sep (y # ys)"

definition field :: "string \<Rightarrow> string \<Rightarrow> string" where
  "field k v = quote k @ '':'' @ v"

fun those_fields :: "(string \<times> string option) list \<Rightarrow> string list option" where
  "those_fields [] = Some []"
| "those_fields ((k, None) # kvs) = None"
| "those_fields ((k, Some v) # kvs) = map_option ((#) (field k v)) (those_fields kvs)"

fun encode :: "any \<Rightarrow> string option" where
  "encode VNil = Some ''null''"
| "encode (VBool b) = Some (if b then ''true'' else ''false'')"
| "encode (VInt i) = Some (itoa i)"
| "encode (VFloat64 lit) = Some lit"
| "encode (VString s) = Some (quote s)"
| "encode (VSlice xs) =
     map_option (\<lambda>es. ''['' @ join '','' es @ '']'') (those (map encode xs))"
| "encode (VMap None) = Some ''null''"
| "encode (VMap (Some kvs)) =
     map_option (\<lambda>fs. ''{'' @ join '','' fs @ ''}'')
       (those_fields (sort_key fst (map (\<lambda>kv. (fst kv, encode (snd kv))) kvs)))"
| "encode (VState st) =
     Some (''{'' @ join '',''
       [field ''headBlockHash'' (quote (HeadBlockHash st)),
        field ''safeBlockHash'' (quote (SafeBlockHash st)),
        field ''finalizedBlockHash'' (quote (FinalizedBlockHash st))] @ ''}'')"
| "encode (VAttrs a) =
     Some (''{'' @ join '',''
       [field ''timestamp'' (quote (Timestamp a)),
        field ''prevRandao'' (quote (PrevRandao a)),
        field ''suggestedFeeRecipient'' (quote (SuggestedFeeRecipient a))] @ ''}'')"
| "encode VChan = None"

definition go_json_Marshal :: "any \<Rightarrow> error + bytes" where
  "go_json_Marshal v =
     (case encode v of
        None \<Rightarrow> Inl (UnsupportedTypeError ''chan int'')
      | Some b \<Rightarrow> Inr b)"

subsection \<open>json.Decoder\<close>

text \<open>
  \<^verbatim>\<open>json.NewDecoder(body).Decode(&result)\<close> with \<^verbatim>\<open>result\<close> a nil
  \<^verbatim>\<open>map[string]interface{}\<close>. The decoder scans the first JSON value of the stream
  byte by byte, with a stack of the open arrays and objects, and stops where that value
  ends: what follows an object or array is never looked at. Then the value is stored:
  an object fills the map, \<^verbatim>\<open>null\<close> leaves it nil, anything else is a type error.
  The scanner below follows the states of encoding/json's scanner and builds the value
  as it goes. A number is kept as its literal and only checked against the range of
  \<^verbatim>\<open>float64\<close>; string bytes beyond ASCII are copied as they are (Go replaces
  ill-formed UTF-8 by U+FFFD).
\<close>

datatype frame =
    ArrayFrame "any list"
  | ObjectFrame "(string \<times> any) list" "string option"

datatype numstate = Neg | Zero | Int1 | Dot | Dot0 | Exp | ESign | E0

datatype mode =
    BeginValue
  | BeginValueOrEmpty
  | BeginString
  | BeginStringOrEmpty
  | InString string "nat option"
  | InStringEsc string "nat option"
  | InStringEscU string "nat option" "nat list"
  | InNumber numstate string
  | InLiteral string string any
  | EndValue
  | EndTop any

datatype outcome =
    Continue mode "frame list" "error option"
  | Done any "error option"
  | Fail error

definition isSpace :: "char \<Rightarrow> bool" where
  "isSpace c = (c = CHR '' '' \<or> c = CHR 0x09 \<or> c = CHR 0x0D \<or> c = CHR 0x0A)"

definition isDigit :: "char \<Rightarrow> bool" where
  "isDigit c = (48 \<le> (of_char c :: nat) \<and> (of_char c :: nat) \<le> 57)"

text \<open>
  The character as an error message shows it (\<^verbatim>\<open>quoteChar\<close>): exact on ASCII; a byte
  beyond ASCII is shown as a \<^verbatim>\<open>\u\<close> escape.
\<close>

definition quoteChar :: "char \<Rightarrow> string" where
  \<open>quoteChar c =
     (if c = CHR 0x27 then [CHR 0x27, CHR 0x5C, CHR 0x27, CHR 0x27]
      else if c = CHR ''"'' then [CHR 0x27, CHR ''"'', CHR 0x27]
      else [CHR 0x27] @
        (if c = CHR 0x07 then [CHR 0x5C, CHR ''a'']
         else if c = CHR 0x08 then [CHR 0x5C, CHR ''b'']
         else if c = CHR 0x0C then [CHR 0x5C, CHR ''f'']
         else if c = CHR 0x0A then [CHR 0x5C, CHR ''n'']
         else if c = CHR 0x0D then [CHR 0x5C, CHR ''r'']
         else if c = CHR 0x09 then [CHR 0x5C, CHR ''t'']
         else if c = CHR 0x0B then [CHR 0x5C, CHR ''v'']
         else if c = CHR 0x5C then [CHR 0x5C, CHR 0x5C]
         else if (of_char c :: nat) < 32 \<or> c = CHR 0x7F
         then [CHR 0x5C, CHR ''x'', hexdigit (of_char c div 16), hexdigit (of_char c)]
         else if 128 \<le> (of_char c :: nat)
         then [CHR 0x5C, CHR ''u'', CHR ''0'', CHR ''0'',
               hexdigit (of_char c div 16), hexdigit (of_char c)]
         else [c]) @ [CHR 0x27])\<close>

definition syntax_error :: "char \<Rightarrow> string \<Rightarrow> error" where
  "syntax_error c ctxt = SyntaxError (''invalid character '' @ quoteChar c @ '' '' @ ctxt)"

definition hexval :: "char \<Rightarrow> nat option" where
  "hexval c =
     (let n = (of_char c :: nat)
      in if 48 \<le> n \<and> n \<le> 57 then Some (n - 48)
         else if 97 \<le> n \<and> n \<le> 102 then Some (n - 87)
         else if 65 \<le> n \<and> n \<le> 70 then Some (n - 55)
         else None)"

definition utf8 :: "nat \<Rightarrow> string" where
  "utf8 cp =
     (if cp < 0x80 then [char_of cp]
      else if cp < 0x800 then [char_of (0xC0 + cp div 64), char_of (0x80 + cp mod 64)]
      else if cp < 0x10000
      then [char_of (0xE0 + cp div 4096), char_of (0x80 + cp div 64 mod 64),
            char_of (0x80 + cp mod 64)]
      else [char_of (0xF0 + cp div 262144), char_of (0x80 + cp div 4096 mod 64),
            char_of (0x80 + cp div 64 mod 64), char_of (0x80 + cp mod 64)])"

definition ReplacementChar :: nat where
  "ReplacementChar = 0xFFFD"

text \<open>What a string holds once a pending high surrogate has found no partner.\<close>

definition flush :: "string \<Rightarrow> nat option \<Rightarrow> string" where
  "flush acc pend = (case pend of None \<Rightarrow> acc | Some h \<Rightarrow> acc @ utf8 ReplacementChar)"

text \<open>
  The code point of a \<^verbatim>\<open>\uXXXX\<close> escape joins the string: a high surrogate waits for
  its partner, a low one completes the pair or is replaced.
\<close>

definition add_rune :: "string \<Rightarrow> nat option \<Rightarrow> nat \<Rightarrow> mode" where
  "add_rune acc pend cp =
     (if 0xDC00 \<le> cp \<and> cp < 0xE000
      then (case pend of
              Some h \<Rightarrow>
                InString (acc @ utf8 (0x10000 + (h - 0xD800) * 0x400 + (cp - 0xDC00))) None
            | None \<Rightarrow> InString (acc @ utf8 ReplacementChar) None)
      else if 0xD800 \<le> cp \<and> cp < 0xDC00 then InString (flush acc pend) (Some cp)
      else InString (flush acc pend @ utf8 cp) None)"

text \<open>
  \<^verbatim>\<open>strconv.ParseFloat\<close> fails on a literal whose value rounds to infinity, that is
  from \<open>2^1024 - 2^970\<close> on (the bound is written out in decimal).
\<close>

definition decimal :: "string \<Rightarrow> int" where
  "decimal ds = foldl (\<lambda>n c. 10 * n + (of_char c - 48)) 0 ds"

definition float64_bound :: int where
  "float64_bound =
     179769313486231580793728971405303415079934132710037826936173778980444968292764750946649017977587207096330286416692887910946555547851940402630657488671505820681908902000708383676273854845817711531764475730270069855571366959622842914819860834936475292719074168444365510704342711559699508093042880177904174497792"

definition out_of_range :: "string \<Rightarrow> bool" where
  "out_of_range lit =
     (let body = (if lit \<noteq> [] \<and> hd lit = CHR ''-'' then tl lit else lit);
          ip = takeWhile isDigit body;
          r1 = dropWhile isDigit body;
          fp = (if r1 \<noteq> [] \<and> hd r1 = CHR ''.'' then takeWhile isDigit (tl r1) else []);
          r2 = (if r1 \<noteq> [] \<and> hd r1 = CHR ''.'' then dropWhile isDigit (tl r1) else r1);
          ex = (if r2 = [] then [] else tl r2);
          e = (if ex \<noteq> [] \<and> hd ex = CHR ''-'' then - decimal (tl ex)
               else if ex \<noteq> [] \<and> hd ex = CHR ''+'' then decimal (tl ex)
               else decimal ex);
          m = decimal (ip @ fp);
          e10 = e - int (length fp);
          bound = float64_bound
      in m \<noteq> 0 \<and>
         (if 0 \<le> e10 then bound \<le> m * 10 ^ nat e10 else bound * 10 ^ nat (- e10) \<le> m))"

definition save_number :: "error option \<Rightarrow> string \<Rightarrow> error option" where
  "save_number saved lit =
     (case saved of
        Some err \<Rightarrow> Some err
      | None \<Rightarrow>
          if out_of_range lit then Some (UnmarshalTypeError (''number '' @ lit) ''float64'')
          else None)"

text \<open>
  A value is complete: at the top level the scan is over (at once after a closing
  bracket, at the next byte after a scalar); inside an array or object the value joins
  it, a later entry of a key replacing the earlier one.
\<close>

definition complete_value :: "any \<Rightarrow> frame list \<Rightarrow> error option \<Rightarrow> bool \<Rightarrow> outcome" where
  "complete_value v stk saved closing =
     (case stk of
        [] \<Rightarrow> if closing then Done v saved else Continue (EndTop v) [] saved
      | ArrayFrame els # fs \<Rightarrow> Continue EndValue (ArrayFrame (els @ [v]) # fs) saved
      | ObjectFrame ms (Some k) # fs \<Rightarrow>
          Continue EndValue (ObjectFrame (AList.update k v ms) None # fs) saved
      | ObjectFrame ms None # fs \<Rightarrow> Fail (LibraryError ''json: invalid scanner state''))"

definition push :: "frame \<Rightarrow> mode \<Rightarrow> frame list \<Rightarrow> error option \<Rightarrow> char \<Rightarrow> outcome" where
  "push f m stk saved c =
     (if length (f # stk) \<le> 10000 then Continue m (f # stk) saved
      else Fail (syntax_error c ''exceeded max depth''))"

definition begin_value :: "frame list \<Rightarrow> error option \<Rightarrow> char \<Rightarrow> outcome" where
  \<open>begin_value stk saved c =
     (if c = CHR ''{'' then push (ObjectFrame [] None) BeginStringOrEmpty stk saved c
      else if c = CHR ''['' then push (ArrayFrame []) BeginValueOrEmpty stk saved c
      else if c = CHR ''"'' then Continue (InString [] None) stk saved
      else if c = CHR ''-'' then Continue (InNumber Neg [c]) stk saved
      else if c = CHR ''0'' then Continue (InNumber Zero [c]) stk saved
      else if c = CHR ''t'' then Continue (InLiteral ''true'' ''rue'' (VBool True)) stk saved
      else if c = CHR ''f'' then Continue (InLiteral ''false'' ''alse'' (VBool False)) stk saved
      else if c = CHR ''n'' then Continue (InLiteral ''null'' ''ull'' VNil) stk saved
      else if isDigit c then Continue (InNumber Int1 [c]) stk saved
      else Fail (syntax_error c ''looking for beginning of value''))\<close>

text \<open>\<^verbatim>\<open>stateEndValue\<close> and \<^verbatim>\<open>stateEndTop\<close>: the byte after a value or a key.\<close>

definition end_value :: "mode \<Rightarrow> frame list \<Rightarrow> error option \<Rightarrow> char \<Rightarrow> outcome" where
  "end_value m stk saved c =
     (case m of
        EndTop v \<Rightarrow>
          if isSpace c then Done v saved else Fail (syntax_error c ''after top-level value'')
      | _ \<Rightarrow>
          if isSpace c then Continue EndValue stk saved
          else (case stk of
              ObjectFrame ms (Some k) # fs \<Rightarrow>
                if c = CHR '':'' then Continue BeginValue stk saved
                else Fail (syntax_error c ''after object key'')
            | ObjectFrame ms None # fs \<Rightarrow>
                if c = CHR '','' then Continue BeginString stk saved
                else if c = CHR ''}'' then complete_value (VMap (Some ms)) fs saved True
                else Fail (syntax_error c ''after object key:value pair'')
            | ArrayFrame els # fs \<Rightarrow>
                if c = CHR '','' then Continue BeginValue stk saved
                else if c = CHR '']'' then complete_value (VSlice els) fs saved True
                else Fail (syntax_error c ''after array element'')
            | [] \<Rightarrow> Fail (syntax_error c ''after top-level value'')))"

text \<open>The end of a number: the value is complete and the byte is read as what follows it.\<close>

definition end_number :: "string \<Rightarrow> frame list \<Rightarrow> error option \<Rightarrow> char \<Rightarrow> outcome" where
  "end_number lit stk saved c =
     (case complete_value (VFloat64 lit) stk (save_number saved lit) False of
        Continue m' stk' saved' \<Rightarrow> end_value m' stk' saved' c
      | out \<Rightarrow> out)"

definition zero_step :: "string \<Rightarrow> frame list \<Rightarrow> error option \<Rightarrow> char \<Rightarrow> outcome" where
  "zero_step lit stk saved c =
     (if c = CHR ''.'' then Continue (InNumber Dot (lit @ [c])) stk saved
      else if c = CHR ''e'' \<or> c = CHR ''E'' then Continue (InNumber Exp (lit @ [c])) stk saved
      else end_number lit stk saved c)"

definition esign_step :: "string \<Rightarrow> frame list \<Rightarrow> error option \<Rightarrow> char \<Rightarrow> outcome" where
  "esign_step lit stk saved c =
     (if isDigit c then Continue (InNumber E0 (lit @ [c])) stk saved
      else Fail (syntax_error c ''in exponent of numeric literal''))"

fun number_step :: "numstate \<Rightarrow> string \<Rightarrow> frame list \<Rightarrow> error option \<Rightarrow> char \<Rightarrow> outcome" where
  "number_step Neg lit stk saved c =
     (if c = CHR ''0'' then Continue (InNumber Zero (lit @ [c])) stk saved
      else if isDigit c then Continue (InNumber Int1 (lit @ [c])) stk saved
      else Fail (syntax_error c ''in numeric literal''))"
| "number_step Int1 lit stk saved c =
     (if isDigit c then Continue (InNumber Int1 (lit @ [c])) stk saved
      else zero_step lit stk saved c)"
| "number_step Zero lit stk saved c = zero_step lit stk saved c"
| "number_step Dot lit stk saved c =
     (if isDigit c then Continue (InNumber Dot0 (lit @ [c])) stk saved
      else Fail (syntax_error c ''after decimal point in numeric literal''))"
| "number_step Dot0 lit stk saved c =
     (if isDigit c then Continue (InNumber Dot0 (lit @ [c])) stk saved
      else if c = CHR ''e'' \<or> c = CHR ''E'' then Continue (InNumber Exp (lit @ [c])) stk saved
      else end_number lit stk saved c)"
| "number_step Exp lit stk saved c =
     (if c = CHR ''+'' \<or> c = CHR ''-'' then Continue (InNumber ESign (lit @ [c])) stk saved
      else esign_step lit stk saved c)"
| "number_step ESign lit stk saved c = esign_step lit stk saved c"
| "number_step E0 lit stk saved c =
     (if isDigit c then Continue (InNumber E0 (lit @ [c])) stk saved
      else end_number lit stk saved c)"

text \<open>A string ends: an object key if the object waits for one, a value otherwise.\<close>

definition end_string :: "string \<Rightarrow> frame list \<Rightarrow> error option \<Rightarrow> outcome" where
  "end_string str stk saved =
     (case stk of
        ObjectFrame ms None # fs \<Rightarrow> Continue EndValue (ObjectFrame ms (Some str) # fs) saved
      | _ \<Rightarrow> complete_value (VString str) stk saved False)"

definition escape_step :: "string \<Rightarrow> frame list \<Rightarrow> error option \<Rightarrow> char \<Rightarrow> outcome" where
  \<open>escape_step acc stk saved c =
     (if c = CHR ''b'' then Continue (InString (acc @ [CHR 0x08]) None) stk saved
      else if c = CHR ''f'' then Continue (InString (acc @ [CHR 0x0C]) None) stk saved
      else if c = CHR ''n'' then Continue (InString (acc @ [CHR 0x0A]) None) stk saved
      else if c = CHR ''r'' then Continue (InString (acc @ [CHR 0x0D]) None) stk saved
      else if c = CHR ''t'' then Continue (InString (acc @ [CHR 0x09]) None) stk saved
      else if c = CHR 0x5C \<or> c = CHR ''/'' \<or> c = CHR ''"''
      then Continue (InString (acc @ [c]) None) stk saved
      else Fail (syntax_error c ''in string escape code''))\<close>

definition begin_string :: "frame list \<Rightarrow> error option \<Rightarrow> char \<Rightarrow> outcome" where
  \<open>begin_string stk saved c =
     (if c = CHR ''"'' then Continue (InString [] None) stk saved
      else Fail (syntax_error c ''looking for beginning of object key string''))\<close>

fun step :: "mode \<Rightarrow> frame list \<Rightarrow> error option \<Rightarrow> char \<Rightarrow> outcome" where
  \<open>step BeginValue stk saved c =
     (if isSpace c then Continue BeginValue stk saved else begin_value stk saved c)\<close>
| \<open>step BeginValueOrEmpty stk saved c =
     (if isSpace c then Continue BeginValueOrEmpty stk saved
      else if c = CHR '']'' then end_value EndValue stk saved c
      else begin_value stk saved c)\<close>
| \<open>step BeginStringOrEmpty stk saved c =
     (if isSpace c then Continue BeginStringOrEmpty stk saved
      else if c = CHR ''}''
      then (case stk of
              ObjectFrame ms key # fs \<Rightarrow> complete_value (VMap (Some ms)) fs saved True
            | _ \<Rightarrow> Fail (LibraryError ''json: invalid scanner state''))
      else begin_string stk saved c)\<close>
| \<open>step BeginString stk saved c =
     (if isSpace c then Continue BeginString stk saved else begin_string stk saved c)\<close>
| \<open>step (InString acc pend) stk saved c =
     (if c = CHR ''"'' then end_string (flush acc pend) stk saved
      else if c = CHR 0x5C then Continue (InStringEsc acc pend) stk saved
      else if (of_char c :: nat) < 32 then Fail (syntax_error c ''in string literal'')
      else Continue (InString (flush acc pend @ [c]) None) stk saved)\<close>
| \<open>step (InStringEsc acc pend) stk saved c =
     (if c = CHR ''u'' then Continue (InStringEscU acc pend []) stk saved
      else escape_step (flush acc pend) stk saved c)\<close>
| \<open>step (InStringEscU acc pend ds) stk saved c =
     (case hexval c of
        None \<Rightarrow> Fail (syntax_error c (CHR ''i'' # CHR ''n'' # CHR '' '' # CHR 0x5C #
                  ''u hexadecimal character escape''))
      | Some d \<Rightarrow>
          if length ds < 3 then Continue (InStringEscU acc pend (ds @ [d])) stk saved
          else Continue (add_rune acc pend (foldl (\<lambda>n x. 16 * n + x) 0 (ds @ [d]))) stk saved)\<close>
| \<open>step (InNumber ns lit) stk saved c = number_step ns lit stk saved c\<close>
| \<open>step (InLiteral name expected v) stk saved c =
     (case expected of
        [] \<Rightarrow> Fail (LibraryError ''json: invalid scanner state'')
      | e # es \<Rightarrow>
          if c \<noteq> e
          then Fail (syntax_error c
                 (''in literal '' @ name @ '' (expecting '' @ [CHR 0x27, e, CHR 0x27] @ '')''))
          else if es = [] then complete_value v stk saved False
          else Continue (InLiteral name es v) stk saved)\<close>
| \<open>step EndValue stk saved c = end_value EndValue stk saved c\<close>
| \<open>step (EndTop v) stk saved c = end_value (EndTop v) stk saved c\<close>

text \<open>
  The scan of the first value. At the end of the input the scanner is offered a space:
  a value it then declares complete is the result; otherwise the input was empty (EOF)
  or stopped within a value (unexpected EOF).
\<close>

fun scan :: "mode \<Rightarrow> frame list \<Rightarrow> error option \<Rightarrow> bytes
    \<Rightarrow> error + (any \<times> error option \<times> bytes)" where
  "scan m stk saved [] =
     (case step m stk saved (CHR '' '') of
        Done v saved' \<Rightarrow> Inr (v, saved', [])
      | _ \<Rightarrow> if m = BeginValue \<and> stk = [] then Inl EOF else Inl ErrUnexpectedEOF)"
| "scan m stk saved (c # cs) =
     (case step m stk saved c of
        Continue m' stk' saved' \<Rightarrow> scan m' stk' saved' cs
      | Done v saved' \<Rightarrow> Inr (v, saved', cs)
      | Fail err \<Rightarrow> Inl err)"

definition map_type :: string where
  "map_type = ''map[string]interface {}''"

definition go_json_Decode :: "bytes \<Rightarrow> error + gomap" where
  "go_json_Decode body =
     (case scan BeginValue [] None body of
        Inl err \<Rightarrow> Inl err
      | Inr (v, saved, rest) \<Rightarrow>
          (case v of
             VMap m \<Rightarrow> (case saved of Some err \<Rightarrow> Inl err | None \<Rightarrow> Inr m)
           | VNil \<Rightarrow> Inr None
           | VSlice els \<Rightarrow> Inl (UnmarshalTypeError ''array'' map_type)
           | VString str \<Rightarrow> Inl (UnmarshalTypeError ''string'' map_type)
           | VBool b \<Rightarrow> Inl (UnmarshalTypeError ''bool'' map_type)
           | _ \<Rightarrow> Inl (UnmarshalTypeError ''number'' map_type)))"

text \<open>
  A valid JSON text (RFC 8259): one JSON value, with whitespace allowed around it and
  nothing else.
\<close>

definition valid_JSON :: "bytes \<Rightarrow> bool" where
  "valid_JSON body =
     (case scan BeginValue [] None body of
        Inl err \<Rightarrow> False
      | Inr (v, saved, rest) \<Rightarrow> list_all isSpace rest)"

subsection \<open>The token, the URL and the transport\<close>

text \<open>
  \<^verbatim>\<open>Token.SignedString\<close> for an HMAC method and a byte-slice key: the header and the
  claims as JSON, each in unpadded URL-safe base64, joined by a dot, and the MAC of that
  string under the key as the third segment. The MAC function is a parameter.
\<close>

definition base64url :: string where
  "base64url = ''ABCDEFGHIJKLMNOPQRSTUVWXYZabcdefghijklmnopqrstuvwxyz0123456789-_''"

fun sextets :: "nat list \<Rightarrow> nat list" where
  "sextets (a # b # c # rest) =
     [a div 4, a mod 4 * 16 + b div 16, b mod 16 * 4 + c div 64, c mod 64] @ sextets rest"
| "sextets [a, b] = [a div 4, a mod 4 * 16 + b div 16, b mod 16 * 4]"
| "sextets [a] = [a div 4, a mod 4 * 16]"
| "sextets [] = []"

definition EncodeSegment :: "bytes \<Rightarrow> string" where
  "EncodeSegment seg = map (\<lambda>n. base64url ! n) (sextets (map of_char seg))"

definition SigningString :: "Token \<Rightarrow> error + string" where
  "SigningString tok =
     (case go_json_Marshal (VMap (Some (map (\<lambda>kv. (fst kv, VString (snd kv))) (TokenHeader tok)))) of
        Inl err \<Rightarrow> Inl err
      | Inr header \<Rightarrow>
          (case go_json_Marshal (VMap (Some (map (\<lambda>kv. (fst kv, VInt (snd kv))) (Claims tok)))) of
             Inl err \<Rightarrow> Inl err
           | Inr claim \<Rightarrow> Inr (EncodeSegment header @ ''.'' @ EncodeSegment claim)))"

definition jwt_SignedString :: "(bytes \<Rightarrow> bytes \<Rightarrow> bytes) \<Rightarrow> Token \<Rightarrow> bytes \<Rightarrow> error + string" where
  "jwt_SignedString mac tok key =
     (case SigningString tok of
        Inl err \<Rightarrow> Inl err
      | Inr sstr \<Rightarrow> Inr (sstr @ ''.'' @ EncodeSegment (mac key sstr)))"

text \<open>
  \<^verbatim>\<open>url.Parse\<close>, as far as its first check: a URL with an ASCII control character is
  refused.
\<close>

definition go_url_Parse :: "string \<Rightarrow> error option" where
  "go_url_Parse rawURL =
     (if list_ex (\<lambda>c. (of_char c :: nat) < 32 \<or> c = CHR 0x7F) rawURL
      then Some (UrlError ''parse'' rawURL
                  (LibraryError ''net/url: invalid control character in URL''))
      else None)"

text \<open>
  \<^verbatim>\<open>Client.Do\<close> against a given server: a context that is done fails the exchange with
  its error, a failing connection with the connection's; either comes wrapped in a
  \<^verbatim>\<open>*url.Error\<close>. Otherwise the server's response is returned.
\<close>

definition http_Do ::
  "(http_Request \<Rightarrow> error + http_Response) \<Rightarrow> http_Client \<Rightarrow> http_Request
     \<Rightarrow> error + http_Response" where
  "http_Do server cl req =
     (case Ctx req of
        Context (Some err) \<Rightarrow> Inl (UrlError ''Post'' (URL req) err)
      | _ \<Rightarrow>
          (case server req of
             Inl err \<Rightarrow> Inl (UrlError ''Post'' (URL req) err)
           | Inr resp \<Rightarrow> Inr resp))"

definition reference_env ::
  "(nat \<Rightarrow> Time) \<Rightarrow> (bytes \<Rightarrow> bytes \<Rightarrow> bytes) \<Rightarrow> (http_Request \<Rightarrow> error + http_Response) \<Rightarrow> env" where
  "reference_env clock mac server =
     \<lparr>wall = clock,
      json_Marshal = go_json_Marshal,
      SignedString = jwt_SignedString mac,
      url_Parse = go_url_Parse,
      client_Do = http_Do server,
      json_Decode = go_json_Decode\<rparr>"

subsection \<open>A test bench\<close>

text \<open>
  The inputs of the evaluations below: a client as \<^verbatim>\<open>main\<close> builds it, with the
  secret \<^verbatim>\<open>test-secret\<close>; the fork-choice state and the attributes of \<^verbatim>\<open>main\<close>; a
  clock that advances by a given step from a given instant; servers that answer every
  request alike; and, in place of HMAC-SHA256, a stand-in that only mixes the key into
  the message (the theorems never depend on it).
\<close>

definition initial_state :: state where
  "initial_state =
     \<lparr>self = NewEngineClient ''http://localhost:8551'' ''test-secret'', reads = 0, sent = []\<rparr>"

definition forkChoice :: ForkChoiceState where
  "forkChoice =
     \<lparr>HeadBlockHash = ''0x1234567890abcdef1234567890abcdef1234567890abcdef1234567890abcdef'',
      SafeBlockHash = ''0xabcdef1234567890abcdef1234567890abcdef1234567890abcdef1234567890'',
      FinalizedBlockHash = ''0x7890abcdef1234567890abcdef1234567890abcdef1234567890abcdef123456''\<rparr>"

definition attributes :: PayloadAttributes where
  "attributes =
     \<lparr>Timestamp = ''0x6548f2a0'',
      PrevRandao = ''0xabcdefabcdefabcdefabcdefabcdefabcdefabcdefabcdefabcdefabcdef'',
      SuggestedFeeRecipient = ''0xabc123abc123abc123abc123abc123abc123abc1''\<rparr>"

definition ticking :: "Time \<Rightarrow> Duration \<Rightarrow> nat \<Rightarrow> Time" where
  "ticking start d n = start + int n * d"

definition standin_mac :: "bytes \<Rightarrow> bytes \<Rightarrow> bytes" where
  "standin_mac key msg = take 32 (rev key @ msg)"

definition answering :: "int \<Rightarrow> bytes \<Rightarrow> http_Request \<Rightarrow> error + http_Response" where
  "answering status body req = Inr \<lparr>StatusCode = status, Body = body\<rparr>"


definition test_env :: "(http_Request \<Rightarrow> error + http_Response) \<Rightarrow> env" where
  "test_env server = reference_env (ticking 1700000000000000000 1000) standin_mac server"

text \<open>
  What the test client puts on the wire: the token of a call whose clock readings fall
  in the second 1700000000, the JSON of the values above, the bodies of the two
  operations around their params, and the request that carries token and body.
\<close>

definition test_token :: string where
  "test_token = ''eyJhbGciOiJIUzI1NiIsInR5cCI6IkpXVCJ9'' @ ''.'' @
     ''eyJleHAiOjE3MDAwMDAwNjAsImlhdCI6MTcwMDAwMDAwMH0'' @ ''.'' @
     ''dGVyY2VzLXRzZXRleUpoYkdjaU9pSklVekkxTmlJc0k''"

definition forkChoice_json :: string where
  \<open>forkChoice_json =
     ''{"headBlockHash":"0x1234567890abcdef1234567890abcdef1234567890abcdef1234567890abcdef",'' @
     ''"safeBlockHash":"0xabcdef1234567890abcdef1234567890abcdef1234567890abcdef1234567890",'' @
     ''"finalizedBlockHash":"0x7890abcdef1234567890abcdef1234567890abcdef1234567890abcdef123456"}''\<close>

definition attributes_json :: string where
  \<open>attributes_json =
     ''{"timestamp":"0x6548f2a0",'' @
     ''"prevRandao":"0xabcdefabcdefabcdefabcdefabcdefabcdefabcdefabcdefabcdefabcdef",'' @
     ''"suggestedFeeRecipient":"0xabc123abc123abc123abc123abc123abc123abc1"}''\<close>

definition forkchoice_body :: "string \<Rightarrow> bytes" where
  \<open>forkchoice_body params =
     ''{"id":1,"jsonrpc":"2.0","method":"engine_forkchoiceUpdatedV1","params":['' @ params @ '']}''\<close>

definition newPayload_body :: "string \<Rightarrow> bytes" where
  \<open>newPayload_body params =
     ''{"id":1,"jsonrpc":"2.0","method":"engine_newPayloadV1","params":['' @ params @ '']}''\<close>

definition test_request :: "context_Context \<Rightarrow> bytes \<Rightarrow> http_Request" where
  "test_request ctx body =
     \<lparr>Method = ''POST'',
      URL = ''http://localhost:8551'',
      Header = [(''Content-Type'', ''application/json''),
                (''Authorization'', ''Bearer '' @ test_token)],
      RequestBody = body,
      Ctx = ctx\<rparr>"

section \<open>Properties\<close>

subsection \<open>What a call leaves and what it sends\<close>

lemma generateJWT_token_frame:
  "self (snd (generateJWT_token env s)) = self s \<and> sent (snd (generateJWT_token env s)) = sent s
   \<and> reads (snd (generateJWT_token env s)) = reads s + 2"
  by (simp add: generateJWT_token_def time_Now_def Let_def)

lemma generateJWT_token_claims:
  "Claims (fst (generateJWT_token env s)) =
     [(''iat'', Unix (wall env (reads s))), (''exp'', Unix (wall env (reads s + 1)) + 60)]"
  by (simp add: generateJWT_token_def time_Now_def Let_def NewWithClaims_def Unix_def Add_def
      Minute_def Second_def)

text \<open>The window is 60 seconds when both readings of a call fall in one second.\<close>

lemma generateJWT_token_window:
  assumes "Unix (wall env (reads s + 1)) = Unix (wall env (reads s))"
  shows "map_of (Claims (fst (generateJWT_token env s))) ''exp'' =
           Some (the (map_of (Claims (fst (generateJWT_token env s))) ''iat'') + 60)"
  using assms by (simp add: generateJWT_token_claims)

lemma generateJWT_token_value:
  "fst (generateJWT_token env s) =
     NewWithClaims SigningMethodHS256
       [(''iat'', Unix (wall env (reads s))), (''exp'', Unix (wall env (reads s + 1)) + 60)]"
  by (simp add: generateJWT_token_def time_Now_def Let_def NewWithClaims_def Unix_def Add_def
      Minute_def Second_def)

lemma generateJWT_frame:
  "self (snd (generateJWT env s)) = self s \<and> sent (snd (generateJWT env s)) = sent s
   \<and> reads (snd (generateJWT env s)) = reads s + 2"
  using generateJWT_token_frame [of env s]
  by (auto simp: generateJWT_def split: prod.splits)

lemma generateJWT_value:
  "fst (generateJWT env s) =
     SignedString env (fst (generateJWT_token env s)) (jwtSecret (self s))"
  using generateJWT_token_frame [of env s]
  by (auto simp: generateJWT_def split: prod.splits)

lemma generateJWT_decoder:
  "generateJWT (env\<lparr>json_Decode := d\<rparr>) s = generateJWT env s"
  by (simp add: generateJWT_def generateJWT_token_def time_Now_def)

lemma makeRequest_self: "self (snd (makeRequest env ctx method params s)) = self s"
  using generateJWT_frame [of env s]
  by (auto simp: makeRequest_def Let_def split: sum.splits prod.splits)

lemma makeRequest_exclusive:
  "snd (fst (makeRequest env ctx method params s)) \<noteq> None
   \<Longrightarrow> fst (fst (makeRequest env ctx method params s)) = None"
  by (auto simp: makeRequest_def Let_def split: sum.splits prod.splits if_splits)

lemma makeRequest_sends_once:
  "sent (snd (makeRequest env ctx method params s)) = sent s
   \<or> (\<exists>req. sent (snd (makeRequest env ctx method params s)) = req # sent s)"
  using generateJWT_frame [of env s]
  by (auto simp: makeRequest_def Let_def split: sum.splits prod.splits)

lemma makeRequest_sends:
  assumes "json_Marshal env (VMap (Some [(''jsonrpc'', VString ''2.0''),
              (''method'', VString method), (''params'', params), (''id'', VInt 1)])) = Inr body"
    and "fst (generateJWT env s) = Inr token"
    and "NewRequestWithContext env ctx ''POST'' (endpoint (self s)) body = Inr req0"
  shows "sent (snd (makeRequest env ctx method params s)) =
           Header_Set ''Authorization'' (''Bearer '' @ token)
             (Header_Set ''Content-Type'' ''application/json'' req0) # sent s"
  using assms generateJWT_frame [of env s]
  by (auto simp: makeRequest_def Let_def split: sum.splits prod.splits)

lemma makeRequest_sent:
  assumes "sent (snd (makeRequest env ctx method params s)) = req # sent s"
  shows "json_Marshal env (VMap (Some [(''jsonrpc'', VString ''2.0''),
                                (''method'', VString method),
                                (''params'', params),
                                (''id'', VInt 1)])) = Inr (RequestBody req)"
  using assms generateJWT_frame [of env s]
  by (auto simp: makeRequest_def Let_def NewRequestWithContext_def Header_Set_def
      split: sum.splits prod.splits if_splits option.splits)

lemma makeRequest_bearer:
  assumes "sent (snd (makeRequest env ctx method params s)) = req # sent s"
  shows "\<exists>token. fst (generateJWT env s) = Inr token
           \<and> map_of (Header req) ''Authorization'' = Some (''Bearer '' @ token)"
  using assms generateJWT_frame [of env s]
  by (auto simp: makeRequest_def Let_def NewRequestWithContext_def Header_Set_def
      split: sum.splits prod.splits if_splits option.splits)

lemma makeRequest_sent_decoder:
  "sent (snd (makeRequest (env\<lparr>json_Decode := d\<rparr>) ctx method params s))
     = sent (snd (makeRequest env ctx method params s))"
  by (auto simp: makeRequest_def Let_def generateJWT_decoder NewRequestWithContext_def
      split: sum.splits prod.splits if_splits option.splits)

lemma makeRequest_answered:
  assumes "sent (snd (makeRequest env ctx method params s)) = req # sent s"
    and "client_Do env (client (self s)) req = Inr resp"
  shows "fst (makeRequest env ctx method params s) =
     (if StatusCode resp \<noteq> StatusOK
      then (None, Some (ErrorString (''unexpected HTTP status: '' @ itoa (StatusCode resp))))
      else (case json_Decode env (Body resp) of
              Inl err \<Rightarrow> (None, Some (Errorf ''failed to decode response: '' err))
            | Inr result \<Rightarrow> (result, None)))"
  using assms generateJWT_frame [of env s]
  by (auto simp: makeRequest_def Let_def split: sum.splits prod.splits if_splits)




text \<open>The two operations are calls of \<open>makeRequest\<close>.\<close>

lemma ForkchoiceUpdated_makeRequest:
  "ForkchoiceUpdated env ctx st attrs =
     makeRequest env ctx ''engine_forkchoiceUpdatedV1''
       (VSlice (case attrs of None \<Rightarrow> [VState st] | Some a \<Rightarrow> [VState st, VAttrs a]))"
  by (rule ext) (simp add: ForkchoiceUpdated_def split: option.splits)

lemma NewPayload_makeRequest:
  "NewPayload env ctx payload =
     makeRequest env ctx ''engine_newPayloadV1'' (VSlice [VMap payload])"
  by (rule ext) (simp add: NewPayload_def)


subsection \<open>Runs of the test bench\<close>

lemma test_clock:
  "Unix (ticking 1700000000000000000 1000 0) = 1700000000"
  "Unix (Add (ticking 1700000000000000000 1000 (Suc 0)) Minute) = 1700000060"
  by (simp_all add: Unix_def ticking_def Add_def Minute_def Second_def)

lemma test_signed:
  "jwt_SignedString standin_mac
     (NewWithClaims SigningMethodHS256 [(''iat'', 1700000000), (''exp'', 1700000060)])
     ''test-secret'' = Inr test_token"
  by code_simp

lemma test_state:
  "endpoint (self initial_state) = ''http://localhost:8551''"
  "jwtSecret (self initial_state) = ''test-secret''"
  "reads initial_state = 0"
  "sent initial_state = []"
  by (simp_all add: initial_state_def NewEngineClient_def)

lemma test_libraries:
  "wall (test_env server) = ticking 1700000000000000000 1000"
  "json_Marshal (test_env server) = go_json_Marshal"
  "SignedString (test_env server) = jwt_SignedString standin_mac"
  "url_Parse (test_env server) = go_url_Parse"
  "client_Do (test_env server) = http_Do server"
  "json_Decode (test_env server) = go_json_Decode"
  by (simp_all add: test_env_def reference_env_def)

lemma test_generateJWT:
  "generateJWT (test_env server) initial_state = (Inr test_token, initial_state\<lparr>reads := 2\<rparr>)"
  by (simp add: generateJWT_def generateJWT_token_def time_Now_def test_libraries test_state
      test_clock test_signed)

lemma test_url: "go_url_Parse ''http://localhost:8551'' = None"
  by code_simp

text \<open>
  A call of the test client under a live or done context, against any server: once the
  envelope is encoded, the outcome is what the server and the decoder make of it.
\<close>

lemma test_makeRequest:
  assumes "go_json_Marshal (VMap (Some [(''jsonrpc'', VString ''2.0''),
              (''method'', VString method), (''params'', params), (''id'', VInt 1)])) = Inr body"
  shows "makeRequest (test_env server) (Context c) method params initial_state =
     ((case http_Do server (client (self initial_state)) (test_request (Context c) body) of
         Inl err \<Rightarrow> (None, Some (Errorf ''failed to make request: '' err))
       | Inr resp \<Rightarrow>
           if StatusCode resp \<noteq> StatusOK
           then (None, Some (ErrorString (''unexpected HTTP status: '' @ itoa (StatusCode resp))))
           else (case go_json_Decode (Body resp) of
               Inl err \<Rightarrow> (None, Some (Errorf ''failed to decode response: '' err))
             | Inr result \<Rightarrow> (result, None))),
      initial_state\<lparr>reads := 2, sent := [test_request (Context c) body]\<rparr>)"
proof -
  have req: "NewRequestWithContext (test_env server) (Context c) ''POST''
      ''http://localhost:8551'' body =
        Inr \<lparr>Method = ''POST'', URL = ''http://localhost:8551'', Header = [],
            RequestBody = body, Ctx = Context c\<rparr>"
    by (simp add: NewRequestWithContext_def test_libraries test_url)
  show ?thesis
    using assms
    by (simp add: makeRequest_def test_libraries test_generateJWT test_state req Header_Set_def
        test_request_def split: sum.splits)
qed

lemma test_bodies:
  "go_json_Marshal (VMap (Some [(''jsonrpc'', VString ''2.0''),
      (''method'', VString ''engine_forkchoiceUpdatedV1''),
      (''params'', VSlice [VState forkChoice]), (''id'', VInt 1)]))
    = Inr (forkchoice_body forkChoice_json)"
  "go_json_Marshal (VMap (Some [(''jsonrpc'', VString ''2.0''),
      (''method'', VString ''engine_forkchoiceUpdatedV1''),
      (''params'', VSlice [VState forkChoice, VAttrs attributes]), (''id'', VInt 1)]))
    = Inr (forkchoice_body (forkChoice_json @ '','' @ attributes_json))"
  "go_json_Marshal (VMap (Some [(''jsonrpc'', VString ''2.0''),
      (''method'', VString ''engine_newPayloadV1''),
      (''params'', VSlice [VMap None]), (''id'', VInt 1)]))
    = Inr (newPayload_body ''null'')"
  by code_simp+

lemma test_ForkchoiceUpdated:
  "ForkchoiceUpdated (test_env server) (Context c) forkChoice None initial_state =
     makeRequest (test_env server) (Context c) ''engine_forkchoiceUpdatedV1''
       (VSlice [VState forkChoice]) initial_state"
  "ForkchoiceUpdated (test_env server) (Context c) forkChoice (Some attributes) initial_state =
     makeRequest (test_env server) (Context c) ''engine_forkchoiceUpdatedV1''
       (VSlice [VState forkChoice, VAttrs attributes]) initial_state"
  by (simp_all add: ForkchoiceUpdated_def)

lemmas test_run =
  test_ForkchoiceUpdated [unfolded test_makeRequest [OF test_bodies(1)]
    test_makeRequest [OF test_bodies(2)]]
  NewPayload_def [of "test_env server" "Context c" None initial_state,
    unfolded test_makeRequest [OF test_bodies(3)]] for server c


text \<open>
  The decoder stops where the first value ends, and \<^verbatim>\<open>null\<close> leaves the map nil
  without an error.
\<close>

lemma test_decoded_first_value:
  \<open>go_json_Decode ''null'' = Inr None\<close>
  \<open>go_json_Decode ''{} x'' = Inr (Some [])\<close>
  \<open>\<not> valid_JSON ''{} x''\<close>
  by code_simp+

lemma test_itoa: "itoa 401 = ''401''" "itoa 500 = ''500''"
  by code_simp+

subsection \<open>The claims\<close>

text \<open>
  C1. \<open>generateJWT\<close> reads the clock once for \<open>iat\<close> and once more for \<open>exp\<close>. In a
  call whose first reading is half a microsecond before the second 1700000000 and
  whose second reading is half a microsecond after it, the token carries
  \<open>iat = 1699999999\<close> and \<open>exp = 1700000060\<close>: a window of 61 seconds, not 60.
\<close>

theorem window_of_61_seconds:
  "Claims (fst (generateJWT_token
      (reference_env (ticking 1699999999999999500 1000) standin_mac (answering 200 []))
      initial_state)) = [(''iat'', 1699999999), (''exp'', 1700000060)]"
  by (simp add: generateJWT_token_claims reference_env_def ticking_def Unix_def test_state)

text \<open>
  C2. Every request \<open>ForkchoiceUpdated\<close> or \<open>NewPayload\<close> hands to the transport (a call
  sends at most one) has as its body the encoding of a map with exactly the entries
  \<open>jsonrpc\<close>, the string 2.0, \<open>method\<close>, \<open>params\<close> and \<open>id\<close>, the integer 1, where the
  method string is \<open>engine_forkchoiceUpdatedV1\<close> for the one and
  \<open>engine_newPayloadV1\<close> for the other.
\<close>

theorem envelope_fields:
  "(sent (snd (ForkchoiceUpdated env ctx st attrs s)) = sent s
      \<or> (\<exists>req. sent (snd (ForkchoiceUpdated env ctx st attrs s)) = req # sent s))
   \<and> (sent (snd (NewPayload env ctx payload s)) = sent s
      \<or> (\<exists>req. sent (snd (NewPayload env ctx payload s)) = req # sent s))
   \<and> (sent (snd (ForkchoiceUpdated env ctx st attrs s)) = req1 # sent s
      \<longrightarrow> (\<exists>params. json_Marshal env (VMap (Some [(''jsonrpc'', VString ''2.0''),
                (''method'', VString ''engine_forkchoiceUpdatedV1''),
                (''params'', params),
                (''id'', VInt 1)])) = Inr (RequestBody req1)))
   \<and> (sent (snd (NewPayload env ctx payload s)) = req2 # sent s
      \<longrightarrow> (\<exists>params. json_Marshal env (VMap (Some [(''jsonrpc'', VString ''2.0''),
                (''method'', VString ''engine_newPayloadV1''),
                (''params'', params),
                (''id'', VInt 1)])) = Inr (RequestBody req2)))"
  unfolding ForkchoiceUpdated_def NewPayload_def Let_def
  using makeRequest_sends_once makeRequest_sent by blast

theorem envelope_fields_witness:
  "sent (snd (ForkchoiceUpdated (test_env (answering 200 ''{}'')) (Context None) forkChoice
       (Some attributes) initial_state))
     = test_request (Context None) (forkchoice_body (forkChoice_json @ '','' @ attributes_json))
       # sent initial_state
   \<and> sent (snd (NewPayload (test_env (answering 200 ''{}'')) (Context None) None initial_state))
     = test_request (Context None) (newPayload_body ''null'') # sent initial_state
   \<and> (\<exists>params. go_json_Marshal (VMap (Some [(''jsonrpc'', VString ''2.0''),
                (''method'', VString ''engine_forkchoiceUpdatedV1''),
                (''params'', params),
                (''id'', VInt 1)]))
        = Inr (forkchoice_body (forkChoice_json @ '','' @ attributes_json)))
   \<and> (\<exists>params. go_json_Marshal (VMap (Some [(''jsonrpc'', VString ''2.0''),
                (''method'', VString ''engine_newPayloadV1''),
                (''params'', params),
                (''id'', VInt 1)]))
        = Inr (newPayload_body ''null''))"
proof -
  let ?E = "test_env (answering 200 ''{}'')"
  let ?r1 = "test_request (Context None) (forkchoice_body (forkChoice_json @ '','' @ attributes_json))"
  let ?r2 = "test_request (Context None) (newPayload_body ''null'')"
  have h1: "sent (snd (ForkchoiceUpdated ?E (Context None) forkChoice (Some attributes)
      initial_state)) = ?r1 # sent initial_state"
    by (simp add: test_run test_state)
  have h2: "sent (snd (NewPayload ?E (Context None) None initial_state))
      = ?r2 # sent initial_state"
    by (simp add: test_run test_state)
  have b: "RequestBody ?r1 = forkchoice_body (forkChoice_json @ '','' @ attributes_json)"
    "RequestBody ?r2 = newPayload_body ''null''"
    by (simp_all add: test_request_def)
  from h1 h2
    envelope_fields [of ?E "Context None" forkChoice "Some attributes" initial_state None ?r1 ?r2]
  show ?thesis unfolding b test_libraries by blast
qed

text \<open>
  C3. The request \<open>ForkchoiceUpdated\<close> sends carries as \<open>params\<close> the slice of the
  state alone when the attributes are nil (length 1), and of the state followed by the
  attributes when they are not (length 2); no element of it is nil.
\<close>

theorem forkchoice_params:
  assumes "sent (snd (ForkchoiceUpdated env ctx st attrs s)) = req # sent s"
  shows "\<exists>ps. json_Marshal env (VMap (Some [(''jsonrpc'', VString ''2.0''),
                (''method'', VString ''engine_forkchoiceUpdatedV1''),
                (''params'', VSlice ps),
                (''id'', VInt 1)])) = Inr (RequestBody req)
           \<and> ps = (case attrs of None \<Rightarrow> [VState st] | Some a \<Rightarrow> [VState st, VAttrs a])
           \<and> length ps = (case attrs of None \<Rightarrow> 1 | Some a \<Rightarrow> 2)
           \<and> VNil \<notin> set ps"
  using makeRequest_sent [OF assms [unfolded ForkchoiceUpdated_def Let_def]]
  by (cases attrs) simp_all

theorem forkchoice_params_witness:
  "sent (snd (ForkchoiceUpdated (test_env (answering 200 ''{}'')) (Context None) forkChoice
       None initial_state))
     = test_request (Context None) (forkchoice_body forkChoice_json) # sent initial_state
   \<and> go_json_Marshal (VMap (Some [(''jsonrpc'', VString ''2.0''),
                (''method'', VString ''engine_forkchoiceUpdatedV1''),
                (''params'', VSlice [VState forkChoice]),
                (''id'', VInt 1)]))
        = Inr (forkchoice_body forkChoice_json)
   \<and> sent (snd (ForkchoiceUpdated (test_env (answering 200 ''{}'')) (Context None) forkChoice
       (Some attributes) initial_state))
     = test_request (Context None) (forkchoice_body (forkChoice_json @ '','' @ attributes_json))
       # sent initial_state
   \<and> go_json_Marshal (VMap (Some [(''jsonrpc'', VString ''2.0''),
                (''method'', VString ''engine_forkchoiceUpdatedV1''),
                (''params'', VSlice [VState forkChoice, VAttrs attributes]),
                (''id'', VInt 1)]))
        = Inr (forkchoice_body (forkChoice_json @ '','' @ attributes_json))"
proof -
  let ?E = "test_env (answering 200 ''{}'')"
  let ?r1 = "test_request (Context None) (forkchoice_body forkChoice_json)"
  let ?r2 = "test_request (Context None) (forkchoice_body (forkChoice_json @ '','' @ attributes_json))"
  have h1: "sent (snd (ForkchoiceUpdated ?E (Context None) forkChoice None initial_state))
      = ?r1 # sent initial_state"
    by (simp add: test_run test_state)
  have h2: "sent (snd (ForkchoiceUpdated ?E (Context None) forkChoice (Some attributes)
      initial_state)) = ?r2 # sent initial_state"
    by (simp add: test_run test_state)
  have c1: "json_Marshal ?E (VMap (Some [(''jsonrpc'', VString ''2.0''),
                (''method'', VString ''engine_forkchoiceUpdatedV1''),
                (''params'', VSlice [VState forkChoice]),
                (''id'', VInt 1)])) = Inr (RequestBody ?r1)"
    using forkchoice_params [OF h1] by simp
  have c2: "json_Marshal ?E (VMap (Some [(''jsonrpc'', VString ''2.0''),
                (''method'', VString ''engine_forkchoiceUpdatedV1''),
                (''params'', VSlice [VState forkChoice, VAttrs attributes]),
                (''id'', VInt 1)])) = Inr (RequestBody ?r2)"
    using forkchoice_params [OF h2] by simp
  have b: "RequestBody ?r1 = forkchoice_body forkChoice_json"
    "RequestBody ?r2 = forkchoice_body (forkChoice_json @ '','' @ attributes_json)"
    by (simp_all add: test_request_def)
  from h1 h2 c1 c2 show ?thesis unfolding b test_libraries by blast
qed

text \<open>
  C4. The request \<open>NewPayload\<close> sends carries the method \<open>engine_newPayloadV1\<close> and as
  \<open>params\<close> the one-element slice of the payload as it was given, the nil map
  included. The payload is not inspected: the request goes out as soon as the envelope
  encodes, the token is signed and the HTTP request is built.
\<close>

theorem newPayload_params:
  "(sent (snd (NewPayload env ctx payload s)) = req # sent s
      \<longrightarrow> json_Marshal env (VMap (Some [(''jsonrpc'', VString ''2.0''),
                (''method'', VString ''engine_newPayloadV1''),
                (''params'', VSlice [VMap payload]),
                (''id'', VInt 1)])) = Inr (RequestBody req))
   \<and> (json_Marshal env (VMap (Some [(''jsonrpc'', VString ''2.0''),
                (''method'', VString ''engine_newPayloadV1''),
                (''params'', VSlice [VMap payload]),
                (''id'', VInt 1)])) = Inr body
       \<and> fst (generateJWT env s) = Inr token
       \<and> NewRequestWithContext env ctx ''POST'' (endpoint (self s)) body = Inr req0
      \<longrightarrow> sent (snd (NewPayload env ctx payload s)) =
            Header_Set ''Authorization'' (''Bearer '' @ token)
              (Header_Set ''Content-Type'' ''application/json'' req0) # sent s)"
  unfolding NewPayload_def
  using makeRequest_sent makeRequest_sends by blast

theorem newPayload_params_witness:
  \<open>sent (snd (NewPayload (test_env (answering 200 ''{}'')) (Context None) None initial_state))
     = test_request (Context None) (newPayload_body ''null'') # sent initial_state
   \<and> go_json_Marshal (VMap (Some [(''jsonrpc'', VString ''2.0''),
                (''method'', VString ''engine_newPayloadV1''),
                (''params'', VSlice [VMap None]),
                (''id'', VInt 1)]))
        = Inr ''{"id":1,"jsonrpc":"2.0","method":"engine_newPayloadV1","params":[null]}''
   \<and> fst (generateJWT (test_env (answering 200 ''{}'')) initial_state) = Inr test_token
   \<and> NewRequestWithContext (test_env (answering 200 ''{}'')) (Context None) ''POST''
         (endpoint (self initial_state))
         ''{"id":1,"jsonrpc":"2.0","method":"engine_newPayloadV1","params":[null]}''
       = Inr \<lparr>Method = ''POST'', URL = ''http://localhost:8551'', Header = [],
           RequestBody = ''{"id":1,"jsonrpc":"2.0","method":"engine_newPayloadV1","params":[null]}'',
           Ctx = Context None\<rparr>\<close>
proof -
  let ?E = \<open>test_env (answering 200 ''{}'')\<close>
  let ?b = \<open>''{"id":1,"jsonrpc":"2.0","method":"engine_newPayloadV1","params":[null]}''\<close>
  let ?r0 = "\<lparr>Method = ''POST'', URL = ''http://localhost:8551'', Header = [],
           RequestBody = ?b, Ctx = Context None\<rparr>"
  have b: "newPayload_body ''null'' = ?b"
    by (simp add: newPayload_body_def)
  have m: "json_Marshal ?E (VMap (Some [(''jsonrpc'', VString ''2.0''),
                (''method'', VString ''engine_newPayloadV1''),
                (''params'', VSlice [VMap None]),
                (''id'', VInt 1)])) = Inr ?b"
    using test_bodies(3) by (simp add: test_libraries b)
  have t: "fst (generateJWT ?E initial_state) = Inr test_token"
    by (simp add: test_generateJWT)
  have r: "NewRequestWithContext ?E (Context None) ''POST'' (endpoint (self initial_state)) ?b
      = Inr ?r0"
    by (simp add: NewRequestWithContext_def test_libraries test_state test_url)
  from m t r newPayload_params [of ?E "Context None" None initial_state _ ?b test_token ?r0]
  have "sent (snd (NewPayload ?E (Context None) None initial_state)) =
      Header_Set ''Authorization'' (''Bearer '' @ test_token)
        (Header_Set ''Content-Type'' ''application/json'' ?r0) # sent initial_state"
    by blast
  then have s: "sent (snd (NewPayload ?E (Context None) None initial_state))
      = test_request (Context None) (newPayload_body ''null'') # sent initial_state"
    by (simp add: Header_Set_def test_request_def b)
  from newPayload_params
     [of ?E "Context None" None initial_state "test_request (Context None) (newPayload_body ''null'')"]
    s
  have "json_Marshal ?E (VMap (Some [(''jsonrpc'', VString ''2.0''),
                (''method'', VString ''engine_newPayloadV1''),
                (''params'', VSlice [VMap None]),
                (''id'', VInt 1)]))
        = Inr (RequestBody (test_request (Context None) (newPayload_body ''null'')))"
    by blast
  then have m': "go_json_Marshal (VMap (Some [(''jsonrpc'', VString ''2.0''),
                (''method'', VString ''engine_newPayloadV1''),
                (''params'', VSlice [VMap None]),
                (''id'', VInt 1)])) = Inr ?b"
    by (simp add: test_libraries test_request_def b)
  from s m' t r show ?thesis by blast
qed

text \<open>
  C5. When the transport answers the request of \<open>ForkchoiceUpdated\<close> or \<open>NewPayload\<close>
  with a status other than 200, the call returns no result and the error
  \<open>unexpected HTTP status:\<close> followed by the status code in decimal. The body plays no
  part: the outcome is the same whatever the decoder would make of it.
\<close>

theorem non_200_status:
  "(sent (snd (ForkchoiceUpdated env ctx st attrs s)) = req1 # sent s
       \<and> client_Do env (client (self s)) req1 = Inr resp1
       \<and> StatusCode resp1 \<noteq> StatusOK
      \<longrightarrow> (\<forall>d. fst (ForkchoiceUpdated (env\<lparr>json_Decode := d\<rparr>) ctx st attrs s) =
             (None, Some (ErrorString
                (''unexpected HTTP status: '' @ itoa (StatusCode resp1))))))
   \<and> (sent (snd (NewPayload env ctx payload s)) = req2 # sent s
       \<and> client_Do env (client (self s)) req2 = Inr resp2
       \<and> StatusCode resp2 \<noteq> StatusOK
      \<longrightarrow> (\<forall>d. fst (NewPayload (env\<lparr>json_Decode := d\<rparr>) ctx payload s) =
             (None, Some (ErrorString
                (''unexpected HTTP status: '' @ itoa (StatusCode resp2))))))"
proof -
  have "fst (makeRequest (env\<lparr>json_Decode := d\<rparr>) ctx m ps s) =
          (None, Some (ErrorString (''unexpected HTTP status: '' @ itoa (StatusCode resp))))"
    if "sent (snd (makeRequest env ctx m ps s)) = req # sent s"
      and "client_Do env (client (self s)) req = Inr resp"
      and "StatusCode resp \<noteq> StatusOK"
    for d m ps req resp
  proof -
    from that(1) have "sent (snd (makeRequest (env\<lparr>json_Decode := d\<rparr>) ctx m ps s))
        = req # sent s"
      by (simp add: makeRequest_sent_decoder)
    moreover from that(2) have "client_Do (env\<lparr>json_Decode := d\<rparr>) (client (self s)) req
        = Inr resp"
      by simp
    ultimately show ?thesis
      using that(3) by (simp add: makeRequest_answered)
  qed
  then show ?thesis
    unfolding ForkchoiceUpdated_def NewPayload_def Let_def by blast
qed

theorem non_200_status_witness:
  \<open>sent (snd (ForkchoiceUpdated (test_env (answering 401 ''{"status":"SYNCING"}''))
       (Context None) forkChoice (Some attributes) initial_state))
     = test_request (Context None) (forkchoice_body (forkChoice_json @ '','' @ attributes_json))
       # sent initial_state
   \<and> client_Do (test_env (answering 401 ''{"status":"SYNCING"}'')) (client (self initial_state))
       (test_request (Context None) (forkchoice_body (forkChoice_json @ '','' @ attributes_json)))
     = Inr \<lparr>StatusCode = 401, Body = ''{"status":"SYNCING"}''\<rparr>
   \<and> (401 :: int) \<noteq> StatusOK
   \<and> (\<forall>d. fst (ForkchoiceUpdated (test_env (answering 401 ''{"status":"SYNCING"}'')\<lparr>json_Decode := d\<rparr>)
          (Context None) forkChoice (Some attributes) initial_state)
        = (None, Some (ErrorString ''unexpected HTTP status: 401'')))
   \<and> sent (snd (NewPayload (test_env (answering 500 [])) (Context None) None initial_state))
     = test_request (Context None) (newPayload_body ''null'') # sent initial_state
   \<and> client_Do (test_env (answering 500 [])) (client (self initial_state))
       (test_request (Context None) (newPayload_body ''null''))
     = Inr \<lparr>StatusCode = 500, Body = []\<rparr>
   \<and> (500 :: int) \<noteq> StatusOK
   \<and> (\<forall>d. fst (NewPayload (test_env (answering 500 [])\<lparr>json_Decode := d\<rparr>) (Context None) None
          initial_state)
        = (None, Some (ErrorString ''unexpected HTTP status: 500'')))\<close>
proof -
  let ?E1 = \<open>test_env (answering 401 ''{"status":"SYNCING"}'')\<close>
  let ?E2 = \<open>test_env (answering 500 [])\<close>
  let ?r1 = "test_request (Context None) (forkchoice_body (forkChoice_json @ '','' @ attributes_json))"
  let ?r2 = "test_request (Context None) (newPayload_body ''null'')"
  let ?a1 = \<open>\<lparr>StatusCode = 401, Body = ''{"status":"SYNCING"}''\<rparr>\<close>
  let ?a2 = "\<lparr>StatusCode = 500, Body = []\<rparr>"
  have s1: "sent (snd (ForkchoiceUpdated ?E1 (Context None) forkChoice (Some attributes)
      initial_state)) = ?r1 # sent initial_state"
    by (simp add: test_run test_state)
  have s2: "sent (snd (NewPayload ?E2 (Context None) None initial_state))
      = ?r2 # sent initial_state"
    by (simp add: test_run test_state)
  have d1: "client_Do ?E1 (client (self initial_state)) ?r1 = Inr ?a1"
    by (simp add: test_libraries http_Do_def answering_def test_request_def)
  have d2: "client_Do ?E2 (client (self initial_state)) ?r2 = Inr ?a2"
    by (simp add: test_libraries http_Do_def answering_def test_request_def)
  have n1: "StatusCode ?a1 \<noteq> StatusOK" and n2: "StatusCode ?a2 \<noteq> StatusOK"
    by (simp_all add: StatusOK_def)
  have i: "itoa (StatusCode ?a1) = ''401''" "itoa (StatusCode ?a2) = ''500''"
    by (simp_all add: test_itoa)
  note inst = non_200_status [of ?E1 "Context None" forkChoice "Some attributes" initial_state
      ?r1 ?a1, THEN conjunct1]
    non_200_status [of ?E2 "Context None" _ _ initial_state _ _ None ?r2 ?a2, THEN conjunct2]
  from inst(1) s1 d1 n1
  have c1: "\<forall>d. fst (ForkchoiceUpdated (?E1\<lparr>json_Decode := d\<rparr>) (Context None) forkChoice
      (Some attributes) initial_state)
        = (None, Some (ErrorString (''unexpected HTTP status: '' @ itoa (StatusCode ?a1))))"
    by blast
  from inst(2) s2 d2 n2
  have c2: "\<forall>d. fst (NewPayload (?E2\<lparr>json_Decode := d\<rparr>) (Context None) None initial_state)
        = (None, Some (ErrorString (''unexpected HTTP status: '' @ itoa (StatusCode ?a2))))"
    by blast
  from c1 c2 have c: "\<forall>d. fst (ForkchoiceUpdated (?E1\<lparr>json_Decode := d\<rparr>) (Context None)
      forkChoice (Some attributes) initial_state)
        = (None, Some (ErrorString ''unexpected HTTP status: 401''))"
    "\<forall>d. fst (NewPayload (?E2\<lparr>json_Decode := d\<rparr>) (Context None) None initial_state)
        = (None, Some (ErrorString ''unexpected HTTP status: 500''))"
    unfolding i by simp_all
  from n1 n2 have n: "(401 :: int) \<noteq> StatusOK" "(500 :: int) \<noteq> StatusOK"
    by simp_all
  from s1 s2 d1 d2 n c show ?thesis by blast
qed




text \<open>
  C7, as the code has it. Every call of \<open>generateJWT\<close> reads the clock anew, twice, and
  signs a token made of those readings; \<open>makeRequest\<close> puts the token of its own call
  into the request. The \<open>iat\<close> claim is the first reading in whole seconds, so two
  calls whose first readings fall in different seconds carry different \<open>iat\<close> claims,
  and with them different signed content.
\<close>

theorem token_minted_per_call:
  "fst (generateJWT env s) =
     SignedString env
       (NewWithClaims SigningMethodHS256
          [(''iat'', Unix (wall env (reads s))), (''exp'', Unix (wall env (reads s + 1)) + 60)])
       (jwtSecret (self s))
   \<and> reads (snd (generateJWT env s)) = reads s + 2
   \<and> (sent (snd (makeRequest env ctx method params s)) = req # sent s
      \<longrightarrow> (\<exists>token. fst (generateJWT env s) = Inr token
             \<and> map_of (Header req) ''Authorization'' = Some (''Bearer '' @ token)))
   \<and> (Unix (wall env (reads s)) \<noteq> Unix (wall env (reads s'))
      \<longrightarrow> map_of (Claims (fst (generateJWT_token env s))) ''iat''
            \<noteq> map_of (Claims (fst (generateJWT_token env s'))) ''iat'')"
proof (intro conjI)
  show "fst (generateJWT env s) =
     SignedString env
       (NewWithClaims SigningMethodHS256
          [(''iat'', Unix (wall env (reads s))), (''exp'', Unix (wall env (reads s + 1)) + 60)])
       (jwtSecret (self s))"
    by (simp only: generateJWT_value generateJWT_token_value)
  show "reads (snd (generateJWT env s)) = reads s + 2"
    by (simp add: generateJWT_frame)
  show "sent (snd (makeRequest env ctx method params s)) = req # sent s
      \<longrightarrow> (\<exists>token. fst (generateJWT env s) = Inr token
             \<and> map_of (Header req) ''Authorization'' = Some (''Bearer '' @ token))"
    using makeRequest_bearer [of env ctx _ _ s req] by blast
  show "Unix (wall env (reads s)) \<noteq> Unix (wall env (reads s'))
      \<longrightarrow> map_of (Claims (fst (generateJWT_token env s))) ''iat''
            \<noteq> map_of (Claims (fst (generateJWT_token env s'))) ''iat''"
    by (simp add: generateJWT_token_claims)
qed

theorem token_minted_per_call_witness:
  "sent (snd (makeRequest (test_env (answering 200 ''{}'')) (Context None) ''engine_newPayloadV1''
       (VSlice [VMap None]) initial_state))
     = test_request (Context None) (newPayload_body ''null'') # sent initial_state
   \<and> fst (generateJWT (test_env (answering 200 ''{}'')) initial_state) = Inr test_token
   \<and> map_of (Header (test_request (Context None) (newPayload_body ''null''))) ''Authorization''
     = Some (''Bearer '' @ test_token)
   \<and> Unix (wall (test_env (answering 200 ''{}'')) (reads initial_state))
     \<noteq> Unix (wall (test_env (answering 200 ''{}'')) (reads (initial_state\<lparr>reads := 1000000\<rparr>)))
   \<and> map_of (Claims (fst (generateJWT_token (test_env (answering 200 ''{}'')) initial_state))) ''iat''
     \<noteq> map_of (Claims (fst (generateJWT_token (test_env (answering 200 ''{}''))
           (initial_state\<lparr>reads := 1000000\<rparr>)))) ''iat''"
proof -
  let ?E = "test_env (answering 200 ''{}'')"
  let ?r = "test_request (Context None) (newPayload_body ''null'')"
  let ?s' = "initial_state\<lparr>reads := 1000000\<rparr>"
  have h1: "sent (snd (makeRequest ?E (Context None) ''engine_newPayloadV1''
      (VSlice [VMap None]) initial_state)) = ?r # sent initial_state"
    by (simp add: test_makeRequest [OF test_bodies(3)] test_state)
  have h2: "Unix (wall ?E (reads initial_state)) \<noteq> Unix (wall ?E (reads ?s'))"
    by (simp add: test_libraries test_state ticking_def Unix_def)
  note inst = token_minted_per_call [of ?E initial_state "Context None" "''engine_newPayloadV1''"
      "VSlice [VMap None]" ?r ?s']
  from inst h1 obtain token where
    t: "fst (generateJWT ?E initial_state) = Inr token"
      "map_of (Header ?r) ''Authorization'' = Some (''Bearer '' @ token)"
    by blast
  from t have t': "fst (generateJWT ?E initial_state) = Inr test_token"
    "map_of (Header ?r) ''Authorization'' = Some (''Bearer '' @ test_token)"
    by (simp_all add: test_generateJWT)
  from inst h2
  have c: "map_of (Claims (fst (generateJWT_token ?E initial_state))) ''iat''
      \<noteq> map_of (Claims (fst (generateJWT_token ?E ?s'))) ''iat''"
    by blast
  from h1 h2 t' c show ?thesis by blast
qed

text \<open>
  C7, as stated, fails: two calls a microsecond apart, both within the second
  1700000000, mint the same token with the same \<open>iat\<close>.
\<close>

theorem same_second_same_token:
  "wall (test_env (answering 200 ''{}'')) (reads initial_state)
     < wall (test_env (answering 200 ''{}''))
         (reads (snd (generateJWT (test_env (answering 200 ''{}'')) initial_state)))
   \<and> map_of (Claims (fst (generateJWT_token (test_env (answering 200 ''{}''))
         (snd (generateJWT (test_env (answering 200 ''{}'')) initial_state))))) ''iat''
     = map_of (Claims (fst (generateJWT_token (test_env (answering 200 ''{}'')) initial_state))) ''iat''
   \<and> fst (generateJWT (test_env (answering 200 ''{}''))
         (snd (generateJWT (test_env (answering 200 ''{}'')) initial_state)))
     = fst (generateJWT (test_env (answering 200 ''{}'')) initial_state)"
  by (simp add: test_generateJWT generateJWT_value generateJWT_token_value generateJWT_token_claims
      test_libraries test_state test_signed ticking_def Unix_def)




text \<open>
  C9. The client does not change: after \<open>generateJWT\<close>, \<open>makeRequest\<close>,
  \<open>ForkchoiceUpdated\<close> or \<open>NewPayload\<close> the object behind the receiver has the endpoint,
  the secret and the HTTP client it had before, whether the call succeeded or failed.
\<close>

theorem client_unchanged:
  "self (snd (generateJWT env s)) = self s
   \<and> self (snd (makeRequest env ctx method params s)) = self s
   \<and> self (snd (ForkchoiceUpdated env ctx st attrs s)) = self s
   \<and> self (snd (NewPayload env ctx payload s)) = self s"
  by (simp add: generateJWT_frame makeRequest_self ForkchoiceUpdated_makeRequest
      NewPayload_makeRequest)

text \<open>
  C10. Result and error exclude each other: whenever \<open>makeRequest\<close>,
  \<open>ForkchoiceUpdated\<close> or \<open>NewPayload\<close> returns an error, the result map it returns is
  nil.
\<close>

theorem error_excludes_result:
  "(snd (fst (makeRequest env ctx method params s)) \<noteq> None
      \<longrightarrow> fst (fst (makeRequest env ctx method params s)) = None)
   \<and> (snd (fst (ForkchoiceUpdated env ctx st attrs s)) \<noteq> None
      \<longrightarrow> fst (fst (ForkchoiceUpdated env ctx st attrs s)) = None)
   \<and> (snd (fst (NewPayload env ctx payload s)) \<noteq> None
      \<longrightarrow> fst (fst (NewPayload env ctx payload s)) = None)"
  by (simp add: makeRequest_exclusive ForkchoiceUpdated_makeRequest NewPayload_makeRequest)

theorem error_excludes_result_witness:
  "snd (fst (makeRequest (test_env (answering 500 [])) (Context None) ''engine_newPayloadV1''
          (VSlice [VMap None]) initial_state)) \<noteq> None
   \<and> fst (fst (makeRequest (test_env (answering 500 [])) (Context None) ''engine_newPayloadV1''
          (VSlice [VMap None]) initial_state)) = None
   \<and> snd (fst (ForkchoiceUpdated (test_env (answering 500 [])) (Context None) forkChoice
          (Some attributes) initial_state)) \<noteq> None
   \<and> fst (fst (ForkchoiceUpdated (test_env (answering 500 [])) (Context None) forkChoice
          (Some attributes) initial_state)) = None
   \<and> snd (fst (NewPayload (test_env (answering 500 [])) (Context None) None initial_state)) \<noteq> None
   \<and> fst (fst (NewPayload (test_env (answering 500 [])) (Context None) None initial_state)) = None"
proof -
  let ?E = "test_env (answering 500 [])"
  have h1: "snd (fst (makeRequest ?E (Context None) ''engine_newPayloadV1''
      (VSlice [VMap None]) initial_state)) \<noteq> None"
    by (simp add: test_makeRequest [OF test_bodies(3)] http_Do_def answering_def StatusOK_def
        test_request_def)
  have h2: "snd (fst (ForkchoiceUpdated ?E (Context None) forkChoice (Some attributes)
      initial_state)) \<noteq> None"
    by (simp add: test_run http_Do_def answering_def StatusOK_def test_request_def)
  have h3: "snd (fst (NewPayload ?E (Context None) None initial_state)) \<noteq> None"
    by (simp add: test_run http_Do_def answering_def StatusOK_def test_request_def)
  from h1 h2 h3
    error_excludes_result [of ?E "Context None" "''engine_newPayloadV1''" "VSlice [VMap None]"
      initial_state forkChoice "Some attributes" None]
  show ?thesis by blast
qed

end
